theory Spec2Isabelle
  imports Main "HOL-Library.AList"
begin

section \<open>Values, tables and files\<close>

text \<open>
  The repository keeps its molecules in a \<^verbatim>\<open>pandas.DataFrame\<close> held by
  \<^verbatim>\<open>DataSetTSV._data\<close> (src/data/dataset.py) and persists it as a tab-separated file.
  A cell of the table is a text value, a parsed molecule object, or a missing value
  (\<^verbatim>\<open>None\<close>/\<^verbatim>\<open>NaN\<close>). The type \<open>'m\<close> stands for the molecules RDKit parses out of a
  structure string; two cells \<open>MolV a\<close> and \<open>MolV b\<close> are the same value when \<open>a = b\<close>.
\<close>

datatype error = KeyError | TypeError | ValueError | EmptyDataError | Raised string

datatype 'm cell = Str string | MolV 'm | NA

text \<open>
  A frame is its index length together with its columns in column order. The row count
  \<^verbatim>\<open>len(df)\<close> is the length of the index, which a frame keeps when its last column is dropped.
\<close>

record 'm frame =
  nrows :: nat
  cols :: "(string \<times> 'm cell list) list"

text \<open>
  The content of a tab-separated file: the number of data lines and, per header name, the
  text fields written below it.
\<close>

record tsv =
  trows :: nat
  tcols :: "(string \<times> string list) list"

type_synonym files = "string \<rightharpoonup> tsv"

text \<open>
  The functions of RDKit and pandas that the repository calls and that decide no claim by
  themselves are parameters of the model: \<^verbatim>\<open>Chem.MolFromSmiles\<close> (it returns \<^verbatim>\<open>None\<close> for a
  string it cannot parse), the text \<^verbatim>\<open>to_csv\<close> writes for one value, and the values
  \<^verbatim>\<open>read_csv\<close> infers from the fields of one column.
\<close>

record 'm lib =
  MolFromSmiles :: "string \<Rightarrow> 'm option"
  render :: "'m cell \<Rightarrow> string"
  infer :: "string list \<Rightarrow> 'm cell list"

definition bind_err :: "error + 'a \<Rightarrow> ('a \<Rightarrow> error + 'b) \<Rightarrow> error + 'b" where
  "bind_err r f = (case r of Inl e \<Rightarrow> Inl e | Inr x \<Rightarrow> f x)"

text \<open>Calling a function on every element in order; the first exception ends the traversal.\<close>

fun mapM :: "('a \<Rightarrow> error + 'b) \<Rightarrow> 'a list \<Rightarrow> error + 'b list" where
  "mapM f [] = Inr []"
| "mapM f (x # xs) =
     (case f x of
        Inl e \<Rightarrow> Inl e
      | Inr y \<Rightarrow> (case mapM f xs of Inl e \<Rightarrow> Inl e | Inr ys \<Rightarrow> Inr (y # ys)))"

definition startswith :: "string \<Rightarrow> string \<Rightarrow> bool" where
  "startswith s p = (take (length p) s = p)"

subsection \<open>DataFrame primitives\<close>

text \<open>\<^verbatim>\<open>df[name]\<close>: the column, or \<^verbatim>\<open>KeyError\<close>.\<close>

definition getitem :: "string \<Rightarrow> 'm frame \<Rightarrow> error + 'm cell list" where
  "getitem name d = (case map_of (cols d) name of None \<Rightarrow> Inl KeyError | Some c \<Rightarrow> Inr c)"

text \<open>
  \<^verbatim>\<open>df[name] = v\<close> for a value computed from the frame itself (a Series on the frame's
  index, an array of the frame's length): an existing column is replaced in place, a new
  one is appended as the last column.
\<close>

definition set_col :: "string \<Rightarrow> 'm cell list \<Rightarrow> 'm frame \<Rightarrow> 'm frame" where
  "set_col name v d = d\<lparr>cols := AList.update name v (cols d)\<rparr>"

text \<open>
  \<^verbatim>\<open>df[name] = data\<close> for a value supplied by the caller. A scalar is broadcast over the
  index. A list has to be as long as the index (\<^verbatim>\<open>ValueError\<close> otherwise), except that a
  frame whose index is empty takes its index from a non-empty list: the frame then has as
  many rows as the list and its other columns are filled with missing values.
\<close>

datatype 'm colvalue = Scalar "'m cell" | Values "'m cell list"

definition setitem :: "string \<Rightarrow> 'm colvalue \<Rightarrow> 'm frame \<Rightarrow> error + 'm frame" where
  "setitem name v d =
     (case v of
        Scalar c \<Rightarrow> Inr (set_col name (replicate (nrows d) c) d)
      | Values xs \<Rightarrow>
          if nrows d = 0 \<and> xs \<noteq> [] then
            Inr (set_col name xs
                  \<lparr>nrows = length xs,
                   cols = map (\<lambda>(n, c). (n, replicate (length xs) NA)) (cols d)\<rparr>)
          else if length xs \<noteq> nrows d then Inl ValueError
          else Inr (set_col name xs d))"

text \<open>\<^verbatim>\<open>df.drop(name, axis=1, inplace=True)\<close>: \<^verbatim>\<open>KeyError\<close> when no column has the name.\<close>

definition drop_col :: "string \<Rightarrow> 'm frame \<Rightarrow> error + 'm frame" where
  "drop_col name d =
     (if name \<in> set (map fst (cols d)) then Inr (d\<lparr>cols := AList.delete name (cols d)\<rparr>)
      else Inl KeyError)"

text \<open>\<^verbatim>\<open>df[names]\<close>: the frame restricted to the listed columns, in the listed order.\<close>

definition select :: "string list \<Rightarrow> 'm frame \<Rightarrow> error + 'm frame" where
  "select names d =
     bind_err (mapM (\<lambda>n. bind_err (getitem n d) (\<lambda>c. Inr (n, c))) names)
       (\<lambda>cs. Inr (d\<lparr>cols := cs\<rparr>))"

text \<open>
  \<^verbatim>\<open>df.to_csv(path, sep='\t', index=False, header=True)\<close> and
  \<^verbatim>\<open>pd.read_csv(path, sep='\t')\<close>. A file without any column cannot be parsed.
\<close>

definition to_csv :: "'m lib \<Rightarrow> 'm frame \<Rightarrow> tsv" where
  "to_csv L d = \<lparr>trows = nrows d, tcols = map (\<lambda>(n, c). (n, map (render L) c)) (cols d)\<rparr>"

definition read_csv :: "'m lib \<Rightarrow> tsv \<Rightarrow> error + 'm frame" where
  "read_csv L f =
     (if tcols f = [] then Inl EmptyDataError
      else Inr \<lparr>nrows = trows f, cols = map (\<lambda>(n, xs). (n, infer L xs)) (tcols f)\<rparr>)"

text \<open>
  \<^verbatim>\<open>PandasTools.AddMoleculeColumnToFrame(frame, smilesCol, molCol)\<close> executes
  \<^verbatim>\<open>frame[molCol] = frame[smilesCol].map(Chem.MolFromSmiles)\<close>. Subscripting \<^verbatim>\<open>None\<close> raises
  \<^verbatim>\<open>TypeError\<close>, and so does \<^verbatim>\<open>Chem.MolFromSmiles\<close> on anything that is not a string.
\<close>

definition mol_of :: "'m lib \<Rightarrow> 'm cell \<Rightarrow> error + 'm cell" where
  "mol_of L c =
     (case c of
        Str s \<Rightarrow> Inr (case MolFromSmiles L s of Some m \<Rightarrow> MolV m | None \<Rightarrow> NA)
      | MolV m \<Rightarrow> Inl TypeError
      | NA \<Rightarrow> Inl TypeError)"

definition AddMoleculeColumnToFrame ::
  "'m lib \<Rightarrow> 'm frame option \<Rightarrow> string \<Rightarrow> string \<Rightarrow> error + 'm frame" where
  "AddMoleculeColumnToFrame L fr smiles_col mol_col =
     (case fr of
        None \<Rightarrow> Inl TypeError
      | Some d \<Rightarrow>
          bind_err (getitem smiles_col d) (\<lambda>c.
          bind_err (mapM (mol_of L) c) (\<lambda>ms.
          Inr (set_col mol_col ms d))))"

section \<open>The file-backed dataset: DataSetTSV\<close>

record 'm DataSetTSV =
  smilesCol :: string
  molCol :: string
  path :: string
  data :: "'m frame"

text \<open>
  A call runs on the object and the file system and may raise after it has changed
  either, so every method returns the exception (if any) together with the state it leaves.
\<close>

type_synonym 'm state = "'m DataSetTSV \<times> files"

text \<open>
  \<^verbatim>\<open>__init__(self, path, mol_col)\<close>: \<^verbatim>\<open>_data\<close> is the parsed file when the path exists and
  \<^verbatim>\<open>None\<close> otherwise; then the molecule column is added to \<^verbatim>\<open>_data\<close>.
\<close>

definition DataSetTSV_init ::
  "'m lib \<Rightarrow> string \<Rightarrow> string \<Rightarrow> files \<Rightarrow> error + 'm DataSetTSV" where
  "DataSetTSV_init L p mol_col fs =
     bind_err (case fs p of
                 Some f \<Rightarrow> bind_err (read_csv L f) (\<lambda>d. Inr (Some d))
               | None \<Rightarrow> Inr None) (\<lambda>d0.
     bind_err (AddMoleculeColumnToFrame L d0 mol_col ''RDMol'') (\<lambda>d.
     Inr \<lparr>smilesCol = mol_col, molCol = ''RDMol'', path = p, data = d\<rparr>))"

text \<open>
  \<^verbatim>\<open>save(self, path=None)\<close> writes to \<^verbatim>\<open>path if path else self.path\<close>: \<^verbatim>\<open>None\<close> and the empty
  string both select the backing path. The file is replaced as a whole; failures of the
  file system itself are not part of the model.
\<close>

definition save :: "'m lib \<Rightarrow> string option \<Rightarrow> 'm state \<Rightarrow> 'm state" where
  "save L p st =
     (case st of (s, fs) \<Rightarrow>
        (s, fs((case p of None \<Rightarrow> path s | Some q \<Rightarrow> if q \<noteq> [] then q else path s)
               \<mapsto> to_csv L (data s))))"

text \<open>
  An annotation function (a \<^verbatim>\<open>Descriptor\<close> or a \<^verbatim>\<open>Scaffold\<close>) is its \<^verbatim>\<open>str()\<close>, which
  names the column, and its call on one molecule cell, which returns a value or raises.
  \<^verbatim>\<open>self._data.apply(lambda row: f(row[self.molCol]), axis=1)\<close> visits the rows in order.
\<close>

type_synonym 'm annotation = "string \<times> ('m cell \<Rightarrow> error + 'm cell)"

definition apply_rows :: "('m cell \<Rightarrow> error + 'm cell) \<Rightarrow> string \<Rightarrow> 'm frame \<Rightarrow> error + 'm cell list" where
  "apply_rows f mol_col d =
     (case map_of (cols d) mol_col of
        None \<Rightarrow> if nrows d = 0 then Inr [] else Inl KeyError
      | Some c \<Rightarrow> mapM f c)"

fun addDescriptors :: "'m lib \<Rightarrow> 'm annotation list \<Rightarrow> 'm state \<Rightarrow> error option \<times> 'm state" where
  "addDescriptors L [] st = (None, st)"
| "addDescriptors L (f # fs) st =
     (case apply_rows (snd f) (molCol (fst st)) (data (fst st)) of
        Inl e \<Rightarrow> (Some e, st)
      | Inr v \<Rightarrow>
          addDescriptors L fs
            (save L None
               ((fst st)\<lparr>data := set_col (''Descriptor_'' @ fst f) v (data (fst st))\<rparr>, snd st)))"

fun addScaffolds :: "'m lib \<Rightarrow> 'm annotation list \<Rightarrow> 'm state \<Rightarrow> error option \<times> 'm state" where
  "addScaffolds L [] st = (None, st)"
| "addScaffolds L (f # fs) st =
     (case apply_rows (snd f) (molCol (fst st)) (data (fst st)) of
        Inl e \<Rightarrow> (Some e, st)
      | Inr v \<Rightarrow>
          (let d1 = set_col (''Scaffold_'' @ fst f) v (data (fst st)) in
           case AddMoleculeColumnToFrame L (Some d1) (''Scaffold_'' @ fst f)
                  (''Scaffold_'' @ fst f @ ''_'' @ molCol (fst st)) of
             Inl e \<Rightarrow> (Some e, ((fst st)\<lparr>data := d1\<rparr>, snd st))
           | Inr d2 \<Rightarrow> addScaffolds L fs (save L None ((fst st)\<lparr>data := d2\<rparr>, snd st))))"

definition getDescriptorsNames :: "'m frame \<Rightarrow> string list" where
  "getDescriptorsNames d = filter (\<lambda>col. startswith col ''Descriptor_'') (map fst (cols d))"

definition getScaffoldNames :: "'m frame \<Rightarrow> string list" where
  "getScaffoldNames d = filter (\<lambda>col. startswith col ''Scaffold_'') (map fst (cols d))"

definition getScaffolds :: "bool \<Rightarrow> 'm frame \<Rightarrow> error + 'm frame" where
  "getScaffolds includeMols d =
     (if includeMols then
        select (filter (\<lambda>col. startswith col ''Scaffold_'') (map fst (cols d))) d
      else select (getScaffoldNames d) d)"

definition getDescriptors :: "'m frame \<Rightarrow> error + 'm frame" where
  "getDescriptors d = select (getDescriptorsNames d) d"

definition getMols :: "bool \<Rightarrow> 'm DataSetTSV \<Rightarrow> error + 'm cell list" where
  "getMols asSmiles s = (if asSmiles then getitem (smilesCol s) (data s) else getitem (molCol s) (data s))"

definition hasDescriptors :: "'m frame \<Rightarrow> bool" where
  "hasDescriptors d = (length (getDescriptorsNames d) > 0)"

definition hasScaffolds :: "'m frame \<Rightarrow> bool" where
  "hasScaffolds d = (length (getScaffoldNames d) > 0)"

definition hasScaffoldGroups :: "'m frame \<Rightarrow> bool" where
  "hasScaffoldGroups d =
     (length (filter (\<lambda>col. startswith col ''ScaffoldGroup_'') (map fst (cols d))) > 0)"

definition addData :: "'m lib \<Rightarrow> string \<Rightarrow> 'm colvalue \<Rightarrow> 'm state \<Rightarrow> error option \<times> 'm state" where
  "addData L name v st =
     (case setitem name v (data (fst st)) of
        Inl e \<Rightarrow> (Some e, st)
      | Inr d \<Rightarrow> (None, save L None ((fst st)\<lparr>data := d\<rparr>, snd st)))"

definition removeData :: "'m lib \<Rightarrow> string \<Rightarrow> 'm state \<Rightarrow> error option \<times> 'm state" where
  "removeData L name st =
     (case drop_col name (data (fst st)) of
        Inl e \<Rightarrow> (Some e, st)
      | Inr d \<Rightarrow> (None, save L None ((fst st)\<lparr>data := d\<rparr>, snd st)))"

subsection \<open>Scaffold groups\<close>

text \<open>
  \<^verbatim>\<open>pd.value_counts(column)\<close> counts each distinct value and leaves missing values out
  (the order of its entries, by falling count, plays no role below);
  \<^verbatim>\<open>counts.lt(m)\<close> marks the values counted fewer than \<open>m\<close> times;
  \<^verbatim>\<open>np.where(column.isin(counts[mask].index), 'Other', column)\<close> replaces exactly those and
  returns the other cells of a column of strings or objects as they are.
\<close>

definition value_counts :: "'m cell list \<Rightarrow> ('m cell \<times> nat) list" where
  "value_counts col = map (\<lambda>v. (v, count_list col v)) (remdups (filter (\<lambda>c. c \<noteq> NA) col))"

definition scaffold_group :: "int \<Rightarrow> 'm cell list \<Rightarrow> 'm cell list" where
  "scaffold_group mols_per_group col =
     (let counts = value_counts col;
          rare = map fst (filter (\<lambda>(v, k). int k < mols_per_group) counts)
      in map (\<lambda>c. if c \<in> set rare then Str ''Other'' else c) col)"

fun group_loop :: "int \<Rightarrow> string list \<Rightarrow> 'm frame \<Rightarrow> error option \<times> 'm frame" where
  "group_loop m [] d = (None, d)"
| "group_loop m (scaffold # rest) d =
     (case getitem scaffold d of
        Inl e \<Rightarrow> (Some e, d)
      | Inr col \<Rightarrow>
          group_loop m rest (set_col (''ScaffoldGroup_'' @ scaffold) (scaffold_group m col) d))"

definition createScaffoldGroups :: "'m lib \<Rightarrow> int \<Rightarrow> 'm state \<Rightarrow> error option \<times> 'm state" where
  "createScaffoldGroups L mols_per_group st =
     (case getScaffolds False (data (fst st)) of
        Inl e \<Rightarrow> (Some e, st)
      | Inr scaffolds \<Rightarrow>
          (case group_loop mols_per_group (map fst (cols scaffolds)) (data (fst st)) of
             (Some e, d) \<Rightarrow> (Some e, ((fst st)\<lparr>data := d\<rparr>, snd st))
           | (None, d) \<Rightarrow> (None, save L None ((fst st)\<lparr>data := d\<rparr>, snd st))))"

definition getScaffoldGroups :: "string \<Rightarrow> 'm frame \<Rightarrow> error + 'm cell list" where
  "getScaffoldGroups scaffold_name d = getitem (''ScaffoldGroup_'' @ scaffold_name) d"

subsection \<open>Sequences of calls\<close>

text \<open>
  A caller's use of the object is a sequence of method calls. An exception ends the call
  that raised it, not the object: the next call runs on the state the failed call left.
\<close>

datatype 'm call =
    AddDescriptors "'m annotation list"
  | AddScaffolds "'m annotation list"
  | AddData string "'m colvalue"
  | RemoveData string
  | CreateScaffoldGroups int

fun run_call :: "'m lib \<Rightarrow> 'm call \<Rightarrow> 'm state \<Rightarrow> error option \<times> 'm state" where
  "run_call L (AddDescriptors fs) st = addDescriptors L fs st"
| "run_call L (AddScaffolds fs) st = addScaffolds L fs st"
| "run_call L (AddData name v) st = addData L name v st"
| "run_call L (RemoveData name) st = removeData L name st"
| "run_call L (CreateScaffoldGroups m) st = createScaffoldGroups L m st"


subsection \<open>Persistence\<close>

text \<open>
  A state is persisted when the backing file holds the table as it is in memory.
\<close>

definition persisted :: "'m lib \<Rightarrow> 'm state \<Rightarrow> bool" where
  "persisted L st = (snd st (path (fst st)) = Some (to_csv L (data (fst st))))"

text \<open>What every call keeps: the object's configuration, and every file but the backing file.\<close>

definition same_config :: "'m state \<Rightarrow> 'm state \<Rightarrow> bool" where
  "same_config st st' =
     (path (fst st') = path (fst st) \<and> molCol (fst st') = molCol (fst st) \<and>
      smilesCol (fst st') = smilesCol (fst st) \<and>
      (\<forall>p. p \<noteq> path (fst st) \<longrightarrow> snd st' p = snd st p))"

section \<open>The acquisition routine: papyrus\_filter\<close>

text \<open>
  src/src/scaffviz/data/papyrus/papyrus\_filter.py. What the routine does besides
  returning is recorded in order: the lines it prints, each read of the Papyrus source
  data, and the files it writes.
\<close>

datatype event =
    PrintUsingExisting string
  | ReadPapyrus
  | PrintReadAllData
  | PrintInitializedFilters
  | PrintNumberOfCompounds nat
  | PrintFilteringDuplicates
  | PrintFilteredOut int
  | PrintWrote string

record world =
  disk :: files
  events :: "event list"

text \<open>
  The functions of the \<^verbatim>\<open>papyrus_scripts\<close> package are a parameter: the table that
  \<^verbatim>\<open>consume_chunks(keep_accession(keep_quality(read_papyrus(is3d, chunksize, source_path,
  plusplus), quality), acc_key))\<close> yields, given \<open>is3d\<close>, \<open>chunksize\<close>, \<open>source_path\<close>,
  \<open>plusplus\<close>, \<open>quality\<close> and \<open>acc_key\<close>.
\<close>

type_synonym 'm papyrus =
  "bool \<Rightarrow> nat \<Rightarrow> string \<Rightarrow> bool \<Rightarrow> string \<Rightarrow> string list \<Rightarrow> 'm frame"

text \<open>\<^verbatim>\<open>sep.join(xs)\<close> and \<^verbatim>\<open>os.path.join(a, b)\<close> on a POSIX system.\<close>

fun join :: "string \<Rightarrow> string list \<Rightarrow> string" where
  "join sep [] = []"
| "join sep [x] = x"
| "join sep (x # y # ys) = x @ sep @ join sep (y # ys)"

definition path_join :: "string \<Rightarrow> string \<Rightarrow> string" where
  "path_join a b =
     (if startswith b ''/'' then b
      else if a = [] \<or> last a = CHR ''/'' then a @ b
      else a @ ''/'' @ b)"

text \<open>
  \<^verbatim>\<open>df.drop_duplicates(subset=[key], inplace=True, ignore_index=True)\<close> keeps the first row
  of every value of the key column.
\<close>

definition drop_duplicates :: "string \<Rightarrow> 'm frame \<Rightarrow> error + 'm frame" where
  "drop_duplicates key d =
     bind_err (getitem key d) (\<lambda>k.
       let keep = filter (\<lambda>i. k ! i \<notin> set (take i k)) [0 ..< length k]
       in Inr \<lparr>nrows = length keep, cols = map (\<lambda>(n, c). (n, map ((!) c) keep)) (cols d)\<rparr>)"

text \<open>
  \<^verbatim>\<open>prefix = prefix or f"{'_'.join(acc_key)}_{quality}"\<close> and
  \<^verbatim>\<open>outfile = os.path.join(outdir, f"{prefix}.tsv")\<close>: \<^verbatim>\<open>None\<close> and the empty string both
  select the default prefix.
\<close>

definition outfile_of :: "string list \<Rightarrow> string \<Rightarrow> string \<Rightarrow> string option \<Rightarrow> string" where
  "outfile_of acc_key quality outdir prefix =
     (let prefix' = (case prefix of
                       None \<Rightarrow> join ''_'' acc_key @ ''_'' @ quality
                     | Some p \<Rightarrow> if p \<noteq> [] then p else join ''_'' acc_key @ ''_'' @ quality)
      in path_join outdir (prefix' @ ''.tsv''))"

definition papyrus_filter ::
  "'m lib \<Rightarrow> 'm papyrus \<Rightarrow> string list \<Rightarrow> string \<Rightarrow> string \<Rightarrow> string option \<Rightarrow> bool \<Rightarrow> nat \<Rightarrow>
     bool \<Rightarrow> bool \<Rightarrow> bool \<Rightarrow> world \<Rightarrow> (error + 'm frame \<times> string) \<times> world" where
  "papyrus_filter L P acc_key quality outdir prefix drop_dups chunk_size use_existing stereo
       plusplus w =
     (let outfile = outfile_of acc_key quality outdir prefix
      in if use_existing \<and> disk w outfile \<noteq> None then
           (bind_err (read_csv L (the (disk w outfile))) (\<lambda>d. Inr (d, outfile)),
            w\<lparr>events := events w @ [PrintUsingExisting outfile]\<rparr>)
         else
           (let filtered_data = P stereo chunk_size outdir plusplus quality acc_key;
                w1 = w\<lparr>events := events w @ [ReadPapyrus, PrintReadAllData,
                        PrintInitializedFilters, PrintNumberOfCompounds (nrows filtered_data)]\<rparr>
            in if drop_dups then
                 (let w2 = w1\<lparr>events := events w1 @ [PrintFilteringDuplicates]\<rparr>
                  in case drop_duplicates ''InChIKey'' filtered_data of
                       Inl e \<Rightarrow> (Inl e, w2)
                     | Inr d \<Rightarrow>
                         (Inr (d, outfile),
                          w2\<lparr>disk := (disk w2)(outfile \<mapsto> to_csv L d),
                             events := events w2 @
                               [PrintFilteredOut (int (nrows filtered_data) - int (nrows d)),
                                PrintWrote outfile]\<rparr>))
               else
                 (Inr (filtered_data, outfile),
                  w1\<lparr>disk := (disk w1)(outfile \<mapsto> to_csv L filtered_data),
                     events := events w1 @ [PrintWrote outfile]\<rparr>)))"

section \<open>Concrete inputs for evaluation\<close>

text \<open>
  Molecules are represented by the string they were parsed from; the string
  \<open>''invalid''\<close> does not parse. A molecule object is written as its \<^verbatim>\<open>repr\<close>, a missing
  value as the empty field, and every non-empty field is read as text.
\<close>

definition text_lib :: "string lib" where
  "text_lib =
     \<lparr>MolFromSmiles = (\<lambda>s. if s = ''invalid'' then None else Some s),
      render = (\<lambda>c. case c of Str s \<Rightarrow> s | MolV m \<Rightarrow> ''<rdkit.Chem.rdchem.Mol object>'' | NA \<Rightarrow> []),
      infer = map (\<lambda>s. if s = [] then NA else Str s)\<rparr>"

text \<open>
  A table as \<^verbatim>\<open>addScaffolds\<close> leaves it for one scaffold function named \<^verbatim>\<open>Murcko\<close>: the
  scaffold strings and, next to them, the molecules parsed from these strings.
\<close>

definition murcko_frame :: "string frame" where
  "murcko_frame =
     \<lparr>nrows = 2,
      cols = [(''SMILES'', [Str ''Cc1ccccc1'', Str ''CCc1ccccc1'']),
              (''RDMol'', [MolV ''Cc1ccccc1'', MolV ''CCc1ccccc1'']),
              (''Scaffold_Murcko'', [Str ''c1ccccc1'', Str ''c1ccccc1'']),
              (''Scaffold_Murcko_RDMol'', [MolV ''c1ccccc1'', MolV ''c1ccccc1''])]\<rparr>"

definition murcko_store :: "string DataSetTSV" where
  "murcko_store =
     \<lparr>smilesCol = ''SMILES'', molCol = ''RDMol'', path = ''data.tsv'', data = murcko_frame\<rparr>"

definition murcko_disk :: files where
  "murcko_disk = [''data.tsv'' \<mapsto> to_csv text_lib murcko_frame]"

text \<open>
  A disk that already holds the output file of an earlier run for accession key
  \<^verbatim>\<open>P00533\<close> and quality \<^verbatim>\<open>high\<close>, and a Papyrus source without any compound.
\<close>

definition papyrus_world :: world where
  "papyrus_world =
     \<lparr>disk = [''out/P00533_high.tsv'' \<mapsto>
                \<lparr>trows = 1,
                 tcols = [(''SMILES'', [''CCO'']), (''InChIKey'', [''LFQSCWFLJHTTHZ''])]\<rparr>],
      events = []\<rparr>"

definition no_papyrus :: "string papyrus" where
  "no_papyrus = (\<lambda>is3d chunksize source_path plusplus quality acc_key. \<lparr>nrows = 0, cols = []\<rparr>)"

text \<open>
  Annotation functions for evaluation: a descriptor, a descriptor that raises on one
  molecule, and a scaffold function.
\<close>

definition size_descriptor :: "string annotation" where
  "size_descriptor =
     (''Size'', \<lambda>c. case c of
                      MolV m \<Rightarrow> Inr (Str (if length m < 10 then ''small'' else ''large''))
                    | Str s \<Rightarrow> Inl TypeError
                    | NA \<Rightarrow> Inl TypeError)"

definition strict_descriptor :: "string annotation" where
  "strict_descriptor =
     (''Strict'', \<lambda>c. case c of
                        MolV m \<Rightarrow> if m = ''CCc1ccccc1'' then Inl (Raised ''unsupported molecule'')
                                  else Inr (Str m)
                      | Str s \<Rightarrow> Inl TypeError
                      | NA \<Rightarrow> Inl TypeError)"

definition ring_scaffold :: "string annotation" where
  "ring_scaffold =
     (''Ring'', \<lambda>c. case c of
                      MolV m \<Rightarrow> Inr (Str ''c1ccccc1'')
                    | Str s \<Rightarrow> Inl TypeError
                    | NA \<Rightarrow> Inl TypeError)"



text \<open>
  The states that one descriptor and one scaffold function leave on the example table.
\<close>

definition sized_state :: "string state" where
  "sized_state = snd (addDescriptors text_lib [size_descriptor] (murcko_store, murcko_disk))"

definition ringed_state :: "string state" where
  "ringed_state = snd (addScaffolds text_lib [ring_scaffold] (murcko_store, murcko_disk))"

text \<open>
  The state after a copy of the example table was saved and a column was removed.
\<close>

definition copied_state :: "string state" where
  "copied_state =
     snd (run_call text_lib (RemoveData ''Scaffold_Murcko_RDMol'')
            (save text_lib (Some ''copy.tsv'') (murcko_store, murcko_disk)))"

text \<open>
  A table whose scaffold column holds the values \<open>A, A, A, B, B, C\<close>.
\<close>

definition abc_store :: "string DataSetTSV" where
  "abc_store =
     \<lparr>smilesCol = ''SMILES'', molCol = ''RDMol'', path = ''abc.tsv'',
      data = \<lparr>nrows = 6,
              cols = [(''SMILES'', [Str ''C1'', Str ''C2'', Str ''C3'', Str ''C4'', Str ''C5'', Str ''C6'']),
                      (''Scaffold_S'', [Str ''A'', Str ''A'', Str ''A'', Str ''B'', Str ''B'', Str ''C''])]\<rparr>\<rparr>"





section \<open>Properties\<close>

subsection \<open>Construction\<close>

lemma init_without_file: "fs p = None \<Longrightarrow> DataSetTSV_init L p mol_col fs = Inl TypeError"
  by (simp add: DataSetTSV_init_def bind_err_def AddMoleculeColumnToFrame_def)

text \<open>
  C2. Constructing a dataset on a path that does not exist is claimed to succeed with an
  empty table. The constructor sets \<^verbatim>\<open>_data\<close> to \<^verbatim>\<open>None\<close> for such a path and then adds the
  molecule column to it unconditionally, which raises: no object is constructed.
\<close>

theorem init_missing_file_raises:
  "DataSetTSV_init text_lib ''missing.tsv'' ''SMILES'' Map.empty = Inl TypeError"
  by (simp add: DataSetTSV_init_def bind_err_def AddMoleculeColumnToFrame_def)

subsection \<open>Scaffold columns\<close>

lemma getScaffolds_modes_agree: "getScaffolds True d = getScaffolds False d"
  by (simp add: getScaffolds_def getScaffoldNames_def)

text \<open>
  C3. The two modes of \<^verbatim>\<open>getScaffolds\<close> are claimed to differ on a table that holds a
  scaffold column and its parsed-molecule counterpart. Both branches select the columns
  whose name starts with \<^verbatim>\<open>Scaffold_\<close>: with the flag unset the molecule column is returned
  too, and the two modes return the same frame.
\<close>

theorem getScaffolds_flag_ignored:
  "getScaffolds False murcko_frame =
     Inr \<lparr>nrows = 2,
          cols = [(''Scaffold_Murcko'', [Str ''c1ccccc1'', Str ''c1ccccc1'']),
                  (''Scaffold_Murcko_RDMol'', [MolV ''c1ccccc1'', MolV ''c1ccccc1''])]\<rparr>
   \<and> getScaffolds True murcko_frame = getScaffolds False murcko_frame"
  by (simp add: getScaffolds_def getScaffoldNames_def murcko_frame_def select_def bind_err_def
      getitem_def startswith_def)

text \<open>
  C8. \<^verbatim>\<open>createScaffoldGroups\<close> is claimed to add a grouping column for the scaffold string
  columns only. It iterates over \<^verbatim>\<open>getScaffolds(includeMols=False)\<close>, which also returns the
  parsed-molecule counterparts, and adds a grouping column for those as well.
\<close>

theorem createScaffoldGroups_groups_mol_columns:
  "map fst (cols (data (fst (snd (createScaffoldGroups text_lib 2 (murcko_store, murcko_disk)))))) =
     [''SMILES'', ''RDMol'', ''Scaffold_Murcko'', ''Scaffold_Murcko_RDMol'',
      ''ScaffoldGroup_Scaffold_Murcko'', ''ScaffoldGroup_Scaffold_Murcko_RDMol'']"
  by (simp add: getScaffolds_def getScaffoldNames_def murcko_frame_def murcko_store_def
      select_def bind_err_def getitem_def startswith_def createScaffoldGroups_def set_col_def
      scaffold_group_def value_counts_def save_def)

subsection \<open>Removing a column\<close>

text \<open>
  C6. \<^verbatim>\<open>removeData\<close> with a name that no column has raises \<^verbatim>\<open>KeyError\<close> and leaves both the
  table in memory and the files on disk as they were: the drop raises before \<^verbatim>\<open>save\<close> runs.
\<close>

theorem removeData_missing_column:
  "name \<notin> set (map fst (cols (data (fst st)))) \<Longrightarrow> removeData L name st = (Some KeyError, st)"
  by (simp add: removeData_def drop_col_def)

theorem removeData_missing_column_witness:
  "''Descriptor_MW'' \<notin> set (map fst (cols (data (fst (murcko_store, murcko_disk)))))
   \<and> removeData text_lib ''Descriptor_MW'' (murcko_store, murcko_disk) =
       (Some KeyError, (murcko_store, murcko_disk))"
proof -
  have h: "''Descriptor_MW'' \<notin> set (map fst (cols (data (fst (murcko_store, murcko_disk)))))"
    by (simp add: murcko_store_def murcko_frame_def)
  show ?thesis using h removeData_missing_column [OF h, of text_lib] by simp
qed

subsection \<open>Reusing the output file of the acquisition routine\<close>

text \<open>
  C9. When \<^verbatim>\<open>use_existing\<close> is set and the output file exists, \<^verbatim>\<open>papyrus_filter\<close> returns
  the file read back together with its path. Besides the line it prints nothing happens:
  the Papyrus source is not read, no filter runs and no file is written, so the disk is
  as before.
\<close>

theorem papyrus_filter_reuses_file:
  assumes "use_existing"
    and "disk w (outfile_of acc_key quality outdir prefix) = Some f"
  shows "papyrus_filter L P acc_key quality outdir prefix drop_dups chunk_size use_existing stereo
           plusplus w =
           (case read_csv L f of
              Inl e \<Rightarrow> Inl e
            | Inr d \<Rightarrow> Inr (d, outfile_of acc_key quality outdir prefix),
            w\<lparr>events := events w @ [PrintUsingExisting (outfile_of acc_key quality outdir prefix)]\<rparr>)"
  using assms by (simp add: papyrus_filter_def Let_def bind_err_def)

theorem papyrus_filter_reuses_file_witness:
  "papyrus_filter text_lib no_papyrus [''P00533''] ''high'' ''out'' None True 100000 True False False
       papyrus_world =
     (Inr (\<lparr>nrows = 1, cols = [(''SMILES'', [Str ''CCO'']), (''InChIKey'', [Str ''LFQSCWFLJHTTHZ''])]\<rparr>,
           ''out/P00533_high.tsv''),
      \<lparr>disk = disk papyrus_world, events = [PrintUsingExisting ''out/P00533_high.tsv'']\<rparr>)"
proof -
  have o: "outfile_of [''P00533''] ''high'' ''out'' None = ''out/P00533_high.tsv''"
    by (simp add: outfile_of_def path_join_def startswith_def)
  have h: "disk papyrus_world (outfile_of [''P00533''] ''high'' ''out'' None) =
             Some \<lparr>trows = 1, tcols = [(''SMILES'', [''CCO'']), (''InChIKey'', [''LFQSCWFLJHTTHZ''])]\<rparr>"
    by (simp add: o papyrus_world_def)
  show ?thesis
    using papyrus_filter_reuses_file [OF TrueI h, of text_lib no_papyrus True 100000 False False]
    by (simp add: o read_csv_def text_lib_def papyrus_world_def)
qed

subsection \<open>What the mutating calls keep\<close>

lemma save_None: "save L None (s, fs) = (s, fs(path s \<mapsto> to_csv L (data s)))"
  by (simp add: save_def)

lemma persisted_save: "persisted L (save L None st)"
  by (cases st) (simp add: save_def persisted_def)

lemma nrows_set_col [simp]: "nrows (set_col n v d) = nrows d"
  by (simp add: set_col_def)

lemma names_set_col: "set (map fst (cols (set_col n v d))) = insert n (set (map fst (cols d)))"
  using dom_update [of n v "cols d"] by (simp add: set_col_def)

lemma AddMol_Some:
  "AddMoleculeColumnToFrame L (Some d) a b = Inr d' \<Longrightarrow> \<exists>ms. d' = set_col b ms d"
  by (auto simp: AddMoleculeColumnToFrame_def bind_err_def split: sum.splits)


lemma AddMol_names:
  "AddMoleculeColumnToFrame L (Some d) a b = Inr d' \<Longrightarrow>
     set (map fst (cols d')) = insert b (set (map fst (cols d)))"
  using AddMol_Some names_set_col by metis

lemma same_config_refl: "same_config st st"
  by (simp add: same_config_def)

lemma same_config_trans: "same_config a b \<Longrightarrow> same_config b c \<Longrightarrow> same_config a c"
  by (simp add: same_config_def)

lemma same_config_save: "same_config (s, fs) (save L None (s\<lparr>data := d\<rparr>, fs))"
  by (simp add: same_config_def save_def)

lemma addDescriptors_config: "addDescriptors L fs st = (r, st') \<Longrightarrow> same_config st st'"
proof (induction fs arbitrary: st)
  case Nil
  then show ?case by (simp add: same_config_refl)
next
  case (Cons f fs)
  show ?case
  proof (cases "apply_rows (snd f) (molCol (fst st)) (data (fst st))")
    case (Inl e)
    with Cons.prems show ?thesis by (simp add: same_config_refl)
  next
    case (Inr v)
    let ?st1 = "save L None ((fst st)\<lparr>data := set_col (''Descriptor_'' @ fst f) v (data (fst st))\<rparr>, snd st)"
    from Cons.prems Inr have "addDescriptors L fs ?st1 = (r, st')" by simp
    then have "same_config ?st1 st'" by (rule Cons.IH)
    moreover have "same_config st ?st1"
      using same_config_save [of "fst st" "snd st" L] by simp
    ultimately show ?thesis by (rule same_config_trans [rotated])
  qed
qed


lemma addScaffolds_config: "addScaffolds L fs st = (r, st') \<Longrightarrow> same_config st st'"
proof (induction fs arbitrary: st)
  case Nil
  then show ?case by (simp add: same_config_refl)
next
  case (Cons f fs)
  show ?case
  proof (cases "apply_rows (snd f) (molCol (fst st)) (data (fst st))")
    case (Inl e)
    with Cons.prems show ?thesis by (simp add: same_config_refl)
  next
    case (Inr v)
    let ?d1 = "set_col (''Scaffold_'' @ fst f) v (data (fst st))"
    show ?thesis
    proof (cases "AddMoleculeColumnToFrame L (Some ?d1) (''Scaffold_'' @ fst f)
                    (''Scaffold_'' @ fst f @ ''_'' @ molCol (fst st))")
      case (Inl e)
      with Cons.prems Inr show ?thesis by (auto simp: same_config_def)
    next
      case d2: (Inr d2)
      let ?st1 = "save L None ((fst st)\<lparr>data := d2\<rparr>, snd st)"
      from Cons.prems Inr d2 have "addScaffolds L fs ?st1 = (r, st')" by simp
      then have "same_config ?st1 st'" by (rule Cons.IH)
      moreover have "same_config st ?st1"
        using same_config_save [of "fst st" "snd st" L] by simp
      ultimately show ?thesis by (rule same_config_trans [rotated])
    qed
  qed
qed




lemma createScaffoldGroups_config:
  "createScaffoldGroups L m st = (r, st') \<Longrightarrow> same_config st st'"
  by (auto simp: createScaffoldGroups_def save_def same_config_def
           split: sum.splits prod.splits option.splits)


lemma removeData_config: "removeData L name st = (r, st') \<Longrightarrow> same_config st st'"
  by (auto simp: removeData_def drop_col_def save_def same_config_def split: if_splits prod.splits)



lemma addData_config: "addData L name v st = (r, st') \<Longrightarrow> same_config st st'"
  by (auto simp: addData_def save_def same_config_def split: sum.splits prod.splits)

lemma run_call_config: "run_call L c st = (r, st') \<Longrightarrow> same_config st st'"
  by (cases c)
     (auto dest: addDescriptors_config addScaffolds_config addData_config removeData_config
                 createScaffoldGroups_config)





subsection \<open>Persistence after each annotation function\<close>

lemma addDescriptors_append:
  "addDescriptors L (pre @ rest) st =
     (case addDescriptors L pre st of
        (None, st1) \<Rightarrow> addDescriptors L rest st1
      | (Some e, st1) \<Rightarrow> (Some e, st1))"
  by (induction pre arbitrary: st) (auto split: sum.splits)

lemma addScaffolds_append:
  "addScaffolds L (pre @ rest) st =
     (case addScaffolds L pre st of
        (None, st1) \<Rightarrow> addScaffolds L rest st1
      | (Some e, st1) \<Rightarrow> (Some e, st1))"
  by (induction pre arbitrary: st) (auto simp: Let_def split: sum.splits)

lemma addDescriptors_persisted:
  "addDescriptors L fs st = (None, st') \<Longrightarrow> fs \<noteq> [] \<or> persisted L st \<Longrightarrow> persisted L st'"
proof (induction fs arbitrary: st)
  case Nil
  then show ?case by simp
next
  case (Cons f fs)
  show ?case
  proof (cases "apply_rows (snd f) (molCol (fst st)) (data (fst st))")
    case (Inl e)
    with Cons.prems show ?thesis by simp
  next
    case (Inr v)
    let ?st1 = "save L None ((fst st)\<lparr>data := set_col (''Descriptor_'' @ fst f) v (data (fst st))\<rparr>, snd st)"
    from Cons.prems Inr have "addDescriptors L fs ?st1 = (None, st')" by simp
    moreover have "fs \<noteq> [] \<or> persisted L ?st1" by (simp add: persisted_save)
    ultimately show ?thesis by (rule Cons.IH)
  qed
qed

lemma addScaffolds_persisted:
  "addScaffolds L fs st = (None, st') \<Longrightarrow> fs \<noteq> [] \<or> persisted L st \<Longrightarrow> persisted L st'"
proof (induction fs arbitrary: st)
  case Nil
  then show ?case by simp
next
  case (Cons f fs)
  show ?case
  proof (cases "apply_rows (snd f) (molCol (fst st)) (data (fst st))")
    case (Inl e)
    with Cons.prems show ?thesis by simp
  next
    case (Inr v)
    let ?d1 = "set_col (''Scaffold_'' @ fst f) v (data (fst st))"
    show ?thesis
    proof (cases "AddMoleculeColumnToFrame L (Some ?d1) (''Scaffold_'' @ fst f)
                    (''Scaffold_'' @ fst f @ ''_'' @ molCol (fst st))")
      case (Inl e)
      with Cons.prems Inr show ?thesis by simp
    next
      case d2: (Inr d2)
      let ?st1 = "save L None ((fst st)\<lparr>data := d2\<rparr>, snd st)"
      from Cons.prems Inr d2 have "addScaffolds L fs ?st1 = (None, st')" by simp
      moreover have "fs \<noteq> [] \<or> persisted L ?st1" by (simp add: persisted_save)
      ultimately show ?thesis by (rule Cons.IH)
    qed
  qed
qed

lemma data_save [simp]: "data (fst (save L p st)) = data (fst st)"
  by (cases st) (simp add: save_def)

lemma keys_set_col: "fst ` set (cols (set_col n v d)) = insert n (fst ` set (cols d))"
  using names_set_col [of n v d] by simp

lemma keys_AddMol:
  "AddMoleculeColumnToFrame L (Some d) a b = Inr d' \<Longrightarrow>
     fst ` set (cols d') = insert b (fst ` set (cols d))"
  using AddMol_names [of L d a b d'] by simp

lemma addDescriptors_names:
  "addDescriptors L fs st = (None, st') \<Longrightarrow>
     set (map fst (cols (data (fst st')))) =
       set (map fst (cols (data (fst st)))) \<union> (\<lambda>g. ''Descriptor_'' @ fst g) ` set fs"
proof (induction fs arbitrary: st)
  case Nil
  then show ?case by simp
next
  case (Cons f fs)
  show ?case
  proof (cases "apply_rows (snd f) (molCol (fst st)) (data (fst st))")
    case (Inl e)
    with Cons.prems show ?thesis by simp
  next
    case (Inr v)
    let ?st1 = "save L None ((fst st)\<lparr>data := set_col (''Descriptor_'' @ fst f) v (data (fst st))\<rparr>, snd st)"
    from Cons.prems Inr have "addDescriptors L fs ?st1 = (None, st')" by simp
    from Cons.IH [OF this] show ?thesis by (simp add: keys_set_col)
  qed
qed

lemma addScaffolds_names:
  "addScaffolds L fs st = (None, st') \<Longrightarrow>
     set (map fst (cols (data (fst st')))) =
       set (map fst (cols (data (fst st))))
       \<union> (\<lambda>g. ''Scaffold_'' @ fst g) ` set fs
       \<union> (\<lambda>g. ''Scaffold_'' @ fst g @ ''_'' @ molCol (fst st)) ` set fs"
proof (induction fs arbitrary: st)
  case Nil
  then show ?case by simp
next
  case (Cons f fs)
  show ?case
  proof (cases "apply_rows (snd f) (molCol (fst st)) (data (fst st))")
    case (Inl e)
    with Cons.prems show ?thesis by simp
  next
    case (Inr v)
    let ?d1 = "set_col (''Scaffold_'' @ fst f) v (data (fst st))"
    show ?thesis
    proof (cases "AddMoleculeColumnToFrame L (Some ?d1) (''Scaffold_'' @ fst f)
                    (''Scaffold_'' @ fst f @ ''_'' @ molCol (fst st))")
      case (Inl e)
      with Cons.prems Inr show ?thesis by simp
    next
      case d2: (Inr d2)
      let ?st1 = "save L None ((fst st)\<lparr>data := d2\<rparr>, snd st)"
      from Cons.prems Inr d2 have "addScaffolds L fs ?st1 = (None, st')" by simp
      from Cons.IH [OF this] keys_AddMol [OF d2] show ?thesis
        by (auto simp: keys_set_col save_def)
    qed
  qed
qed

lemma addData_persisted: "addData L name v st = (None, st') \<Longrightarrow> persisted L st'"
  by (auto simp: addData_def split: sum.splits intro: persisted_save)

lemma removeData_persisted: "removeData L name st = (None, st') \<Longrightarrow> persisted L st'"
  by (auto simp: removeData_def split: sum.splits intro: persisted_save)

lemma createScaffoldGroups_persisted:
  "createScaffoldGroups L m st = (None, st') \<Longrightarrow> persisted L st'"
  by (auto simp: createScaffoldGroups_def split: sum.splits prod.splits option.splits
           intro: persisted_save)

lemma run_call_persisted:
  "run_call L c st = (None, st') \<Longrightarrow> c \<noteq> AddDescriptors [] \<Longrightarrow> c \<noteq> AddScaffolds [] \<Longrightarrow>
     persisted L st'"
  by (cases c)
     (auto dest: addDescriptors_persisted addScaffolds_persisted addData_persisted
                 removeData_persisted createScaffoldGroups_persisted)

text \<open>
  C7. When the function \<open>f\<close> raises \<open>e\<close> on the table that the functions \<open>pre\<close> before it
  have left, the call raises \<open>e\<close> and leaves exactly that table: the column of \<open>f\<close> is not
  added, the functions after \<open>f\<close> are not run, the columns of every function of \<open>pre\<close>
  are in the table, and (when \<open>pre\<close> is not empty) the backing file holds this table,
  since \<^verbatim>\<open>save\<close> ran after each function of \<open>pre\<close>. This holds for \<^verbatim>\<open>addDescriptors\<close> and
  for \<^verbatim>\<open>addScaffolds\<close>.
\<close>

theorem annotation_failure_keeps_earlier_columns:
  "(addDescriptors L pre st = (None, st1)
      \<and> apply_rows (snd f) (molCol (fst st1)) (data (fst st1)) = Inl e \<longrightarrow>
        addDescriptors L (pre @ f # post) st = (Some e, st1)
        \<and> (\<forall>g \<in> set pre. ''Descriptor_'' @ fst g \<in> set (map fst (cols (data (fst st1)))))
        \<and> (pre \<noteq> [] \<longrightarrow> persisted L st1))
   \<and> (addScaffolds L pre st = (None, st2)
      \<and> apply_rows (snd f) (molCol (fst st2)) (data (fst st2)) = Inl e \<longrightarrow>
        addScaffolds L (pre @ f # post) st = (Some e, st2)
        \<and> (\<forall>g \<in> set pre.
              ''Scaffold_'' @ fst g \<in> set (map fst (cols (data (fst st2))))
              \<and> ''Scaffold_'' @ fst g @ ''_'' @ molCol (fst st) \<in> set (map fst (cols (data (fst st2)))))
        \<and> (pre \<noteq> [] \<longrightarrow> persisted L st2))"
proof (intro conjI impI)
  assume a: "addDescriptors L pre st = (None, st1)
             \<and> apply_rows (snd f) (molCol (fst st1)) (data (fst st1)) = Inl e"
  then show "addDescriptors L (pre @ f # post) st = (Some e, st1)"
    by (simp add: addDescriptors_append)
  from a show "\<forall>g \<in> set pre. ''Descriptor_'' @ fst g \<in> set (map fst (cols (data (fst st1))))"
    using addDescriptors_names [of L pre st st1] by auto
  assume "pre \<noteq> []"
  with a show "persisted L st1" using addDescriptors_persisted [of L pre st st1] by simp
next
  assume a: "addScaffolds L pre st = (None, st2)
             \<and> apply_rows (snd f) (molCol (fst st2)) (data (fst st2)) = Inl e"
  then show "addScaffolds L (pre @ f # post) st = (Some e, st2)"
    by (simp add: addScaffolds_append)
  from a show "\<forall>g \<in> set pre.
              ''Scaffold_'' @ fst g \<in> set (map fst (cols (data (fst st2))))
              \<and> ''Scaffold_'' @ fst g @ ''_'' @ molCol (fst st) \<in> set (map fst (cols (data (fst st2))))"
    using addScaffolds_names [of L pre st st2] by auto
  assume "pre \<noteq> []"
  with a show "persisted L st2" using addScaffolds_persisted [of L pre st st2] by simp
qed

theorem annotation_failure_keeps_earlier_columns_witness:
  "addDescriptors text_lib [size_descriptor] (murcko_store, murcko_disk) = (None, sized_state)
   \<and> apply_rows (snd strict_descriptor) (molCol (fst sized_state)) (data (fst sized_state)) =
       Inl (Raised ''unsupported molecule'')
   \<and> addDescriptors text_lib ([size_descriptor] @ strict_descriptor # [size_descriptor])
         (murcko_store, murcko_disk) = (Some (Raised ''unsupported molecule''), sized_state)
   \<and> ''Descriptor_Size'' \<in> set (map fst (cols (data (fst sized_state))))
   \<and> persisted text_lib sized_state
   \<and> addScaffolds text_lib [ring_scaffold] (murcko_store, murcko_disk) = (None, ringed_state)
   \<and> apply_rows (snd strict_descriptor) (molCol (fst ringed_state)) (data (fst ringed_state)) =
       Inl (Raised ''unsupported molecule'')
   \<and> addScaffolds text_lib ([ring_scaffold] @ strict_descriptor # [ring_scaffold])
         (murcko_store, murcko_disk) = (Some (Raised ''unsupported molecule''), ringed_state)
   \<and> ''Scaffold_Ring'' \<in> set (map fst (cols (data (fst ringed_state))))
   \<and> ''Scaffold_Ring_RDMol'' \<in> set (map fst (cols (data (fst ringed_state))))
   \<and> persisted text_lib ringed_state"
proof -
  have d1: "addDescriptors text_lib [size_descriptor] (murcko_store, murcko_disk) = (None, sized_state)"
    by (simp add: sized_state_def murcko_store_def murcko_frame_def murcko_disk_def
        size_descriptor_def strict_descriptor_def ring_scaffold_def apply_rows_def set_col_def
        save_def AddMoleculeColumnToFrame_def bind_err_def getitem_def mol_of_def text_lib_def)
  have d2: "apply_rows (snd strict_descriptor) (molCol (fst sized_state)) (data (fst sized_state)) =
              Inl (Raised ''unsupported molecule'')"
    by (simp add: sized_state_def murcko_store_def murcko_frame_def murcko_disk_def
        size_descriptor_def strict_descriptor_def ring_scaffold_def apply_rows_def set_col_def
        save_def AddMoleculeColumnToFrame_def bind_err_def getitem_def mol_of_def text_lib_def)
  have s1: "addScaffolds text_lib [ring_scaffold] (murcko_store, murcko_disk) = (None, ringed_state)"
    by (simp add: ringed_state_def murcko_store_def murcko_frame_def murcko_disk_def
        size_descriptor_def strict_descriptor_def ring_scaffold_def apply_rows_def set_col_def
        save_def AddMoleculeColumnToFrame_def bind_err_def getitem_def mol_of_def text_lib_def)
  have s2: "apply_rows (snd strict_descriptor) (molCol (fst ringed_state)) (data (fst ringed_state)) =
              Inl (Raised ''unsupported molecule'')"
    by (simp add: ringed_state_def murcko_store_def murcko_frame_def murcko_disk_def
        size_descriptor_def strict_descriptor_def ring_scaffold_def apply_rows_def set_col_def
        save_def AddMoleculeColumnToFrame_def bind_err_def getitem_def mol_of_def text_lib_def)
  note T = annotation_failure_keeps_earlier_columns
             [where L = text_lib and st = "(murcko_store, murcko_disk)" and f = strict_descriptor
                and e = "Raised ''unsupported molecule''" and ?st1.0 = sized_state
                and ?st2.0 = ringed_state]
  have D: "addDescriptors text_lib ([size_descriptor] @ strict_descriptor # [size_descriptor])
               (murcko_store, murcko_disk) = (Some (Raised ''unsupported molecule''), sized_state)
           \<and> (\<forall>g \<in> set [size_descriptor].
                 ''Descriptor_'' @ fst g \<in> set (map fst (cols (data (fst sized_state)))))
           \<and> ([size_descriptor] \<noteq> [] \<longrightarrow> persisted text_lib sized_state)"
    using T [where pre = "[size_descriptor]" and post = "[size_descriptor]"] d1 d2 by blast
  have S: "addScaffolds text_lib ([ring_scaffold] @ strict_descriptor # [ring_scaffold])
               (murcko_store, murcko_disk) = (Some (Raised ''unsupported molecule''), ringed_state)
           \<and> (\<forall>g \<in> set [ring_scaffold].
                 ''Scaffold_'' @ fst g \<in> set (map fst (cols (data (fst ringed_state))))
                 \<and> ''Scaffold_'' @ fst g @ ''_'' @ molCol (fst (murcko_store, murcko_disk))
                      \<in> set (map fst (cols (data (fst ringed_state)))))
           \<and> ([ring_scaffold] \<noteq> [] \<longrightarrow> persisted text_lib ringed_state)"
    using T [where pre = "[ring_scaffold]" and post = "[ring_scaffold]"] s1 s2 by blast
  have n1: "''Descriptor_'' @ fst size_descriptor = ''Descriptor_Size''"
    by (simp add: size_descriptor_def)
  have n2: "''Scaffold_'' @ fst ring_scaffold = ''Scaffold_Ring''"
    by (simp add: ring_scaffold_def)
  have n3: "''Scaffold_'' @ fst ring_scaffold @ ''_'' @ molCol (fst (murcko_store, murcko_disk)) =
              ''Scaffold_Ring_RDMol''"
    by (simp add: ring_scaffold_def murcko_store_def)
  from D have D': "''Descriptor_Size'' \<in> set (map fst (cols (data (fst sized_state))))
                   \<and> persisted text_lib sized_state"
    unfolding n1 [symmetric] by simp
  from S have S': "''Scaffold_Ring'' \<in> set (map fst (cols (data (fst ringed_state))))
                   \<and> ''Scaffold_Ring_RDMol'' \<in> set (map fst (cols (data (fst ringed_state))))
                   \<and> persisted text_lib ringed_state"
    unfolding n2 [symmetric] n3 [symmetric] by simp
  from d1 d2 s1 s2 D S D' S' show ?thesis by blast
qed

subsection \<open>Saving to another path\<close>

text \<open>
  C10. \<^verbatim>\<open>save\<close> with an override path (a non-empty string; \<^verbatim>\<open>save\<close> takes the empty string
  for no path, as it does \<^verbatim>\<open>None\<close>) writes the table to that path and leaves the object,
  its backing path included, as it was. Every mutating call made afterwards keeps the
  backing path, changes no file other than the one at the backing path, and, when it
  returns normally after at least one \<^verbatim>\<open>save\<close>, leaves the table in the file at the backing
  path.
\<close>

theorem save_override_keeps_backing_path:
  assumes "q \<noteq> []"
  shows "save L (Some q) (s, fs) = (s, fs(q \<mapsto> to_csv L (data s)))
         \<and> (\<forall>c r st'. run_call L c (save L (Some q) (s, fs)) = (r, st') \<longrightarrow>
               path (fst st') = path s
               \<and> (\<forall>p. p \<noteq> path s \<longrightarrow> snd st' p = (fs(q \<mapsto> to_csv L (data s))) p)
               \<and> (r = None \<and> c \<noteq> AddDescriptors [] \<and> c \<noteq> AddScaffolds [] \<longrightarrow>
                    snd st' (path s) = Some (to_csv L (data (fst st')))))"
proof (intro conjI allI impI)
  show sv: "save L (Some q) (s, fs) = (s, fs(q \<mapsto> to_csv L (data s)))"
    using assms by (simp add: save_def)
  fix c r st'
  assume run: "run_call L c (save L (Some q) (s, fs)) = (r, st')"
  then have cfg: "same_config (s, fs(q \<mapsto> to_csv L (data s))) st'"
    unfolding sv by (rule run_call_config)
  then show p: "path (fst st') = path s" by (simp add: same_config_def)
  {
    fix p assume "p \<noteq> path s"
    with cfg show "snd st' p = (fs(q \<mapsto> to_csv L (data s))) p"
      by (simp add: same_config_def)
  }
  assume "r = None \<and> c \<noteq> AddDescriptors [] \<and> c \<noteq> AddScaffolds []"
  with run have "persisted L st'" using run_call_persisted by blast
  with p show "snd st' (path s) = Some (to_csv L (data (fst st')))"
    by (simp add: persisted_def)
qed

theorem save_override_keeps_backing_path_witness:
  "save text_lib (Some ''copy.tsv'') (murcko_store, murcko_disk) =
     (murcko_store, murcko_disk(''copy.tsv'' \<mapsto> to_csv text_lib (data murcko_store)))
   \<and> run_call text_lib (RemoveData ''Scaffold_Murcko_RDMol'')
        (save text_lib (Some ''copy.tsv'') (murcko_store, murcko_disk)) = (None, copied_state)
   \<and> path (fst copied_state) = ''data.tsv''
   \<and> snd copied_state ''copy.tsv'' = Some (to_csv text_lib murcko_frame)
   \<and> snd copied_state ''data.tsv'' = Some (to_csv text_lib (data (fst copied_state)))
   \<and> map fst (cols (data (fst copied_state))) = [''SMILES'', ''RDMol'', ''Scaffold_Murcko'']"
proof -
  have q: "''copy.tsv'' \<noteq> []" by simp
  note T = save_override_keeps_backing_path [OF q, of text_lib murcko_store murcko_disk]
  have r: "run_call text_lib (RemoveData ''Scaffold_Murcko_RDMol'')
             (save text_lib (Some ''copy.tsv'') (murcko_store, murcko_disk)) = (None, copied_state)"
    by (simp add: copied_state_def removeData_def drop_col_def murcko_store_def murcko_frame_def
        save_def)
  have p: "path murcko_store = ''data.tsv''" by (simp add: murcko_store_def)
  have c: "RemoveData ''Scaffold_Murcko_RDMol'' \<noteq> (AddDescriptors [] :: string call)
           \<and> RemoveData ''Scaffold_Murcko_RDMol'' \<noteq> (AddScaffolds [] :: string call)" by simp
  from T r c have 1: "path (fst copied_state) = path murcko_store" by blast
  from T r c have 2: "snd copied_state (path murcko_store) = Some (to_csv text_lib (data (fst copied_state)))"
    by blast
  have ne: "''copy.tsv'' \<noteq> path murcko_store" by (simp add: p)
  from T r ne have 3: "snd copied_state ''copy.tsv'' =
                        (murcko_disk(''copy.tsv'' \<mapsto> to_csv text_lib (data murcko_store))) ''copy.tsv''"
    by blast
  have 4: "map fst (cols (data (fst copied_state))) = [''SMILES'', ''RDMol'', ''Scaffold_Murcko'']"
    by (simp add: copied_state_def removeData_def drop_col_def murcko_store_def murcko_frame_def
        save_def AList.delete_eq)
  have d: "data murcko_store = murcko_frame" by (simp add: murcko_store_def)
  from T 1 2 3 4 r show ?thesis by (simp add: p d)
qed

subsection \<open>The grouping threshold\<close>

lemma rare_iff:
  "c \<in> set (map fst (filter (\<lambda>(v, k). int k < m) (value_counts col))) \<longleftrightarrow>
     c \<in> set col \<and> c \<noteq> NA \<and> int (count_list col c) < m"
  by (auto simp: value_counts_def image_iff)

lemma scaffold_group_length [simp]: "length (scaffold_group m col) = length col"
  by (simp add: scaffold_group_def Let_def)

lemma scaffold_group_cell:
  "i < length col \<Longrightarrow>
     scaffold_group m col ! i =
       (if col ! i \<noteq> NA \<and> int (count_list col (col ! i)) < m then Str ''Other'' else col ! i)"
  unfolding scaffold_group_def Let_def by (simp add: rare_iff del: set_map)

lemma scaffold_group_text:
  "i < length col \<Longrightarrow> col ! i = Str s \<Longrightarrow>
     scaffold_group m col ! i =
       (if m \<le> int (count_list col (Str s)) then Str s else Str ''Other'')"
  by (simp add: scaffold_group_cell)

lemma not_group_name: "startswith c ''Scaffold_'' \<Longrightarrow> c \<noteq> ''ScaffoldGroup_'' @ x"
  by (auto simp: startswith_def)

lemma map_of_set_col: "map_of (cols (set_col n v d)) = (map_of (cols d))(n \<mapsto> v)"
  by (simp add: set_col_def update_conv')

lemma group_loop_result:
  assumes "\<forall>c \<in> set cs. startswith c ''Scaffold_'' \<and> map_of (cols d) c \<noteq> None"
  shows "\<exists>d'. group_loop m cs d = (None, d')
           \<and> (\<forall>n. n \<notin> (\<lambda>c. ''ScaffoldGroup_'' @ c) ` set cs \<longrightarrow> map_of (cols d') n = map_of (cols d) n)
           \<and> (\<forall>c \<in> set cs. map_of (cols d') (''ScaffoldGroup_'' @ c) =
                  map_option (scaffold_group m) (map_of (cols d) c))"
  using assms
proof (induction cs arbitrary: d)
  case Nil
  then show ?case by simp
next
  case (Cons c cs)
  from Cons.prems obtain col where col: "map_of (cols d) c = Some col" by auto
  let ?d1 = "set_col (''ScaffoldGroup_'' @ c) (scaffold_group m col) d"
  have keep: "map_of (cols ?d1) x = map_of (cols d) x" if "startswith x ''Scaffold_''" for x
    using that not_group_name [of x c] by (simp add: map_of_set_col)
  have "\<forall>c' \<in> set cs. startswith c' ''Scaffold_'' \<and> map_of (cols ?d1) c' \<noteq> None"
    using Cons.prems keep by simp
  from Cons.IH [OF this] obtain d' where
    run: "group_loop m cs ?d1 = (None, d')"
    and A: "\<And>n. n \<notin> (\<lambda>c. ''ScaffoldGroup_'' @ c) ` set cs \<Longrightarrow> map_of (cols d') n = map_of (cols ?d1) n"
    and B: "\<And>c'. c' \<in> set cs \<Longrightarrow> map_of (cols d') (''ScaffoldGroup_'' @ c') =
                  map_option (scaffold_group m) (map_of (cols ?d1) c')"
    by blast
  have 1: "group_loop m (c # cs) d = (None, d')"
    using col run by (simp add: getitem_def)
  have 2: "map_of (cols d') n = map_of (cols d) n"
    if "n \<notin> (\<lambda>c. ''ScaffoldGroup_'' @ c) ` set (c # cs)" for n
    using that A [of n] by (auto simp: map_of_set_col)
  have 3: "map_of (cols d') (''ScaffoldGroup_'' @ c') =
             map_option (scaffold_group m) (map_of (cols d) c')" if "c' \<in> set (c # cs)" for c'
  proof (cases "c' \<in> set cs")
    case True
    with Cons.prems keep [of c'] B [of c'] show ?thesis by simp
  next
    case False
    with that have e: "c' = c" by simp
    from False e have "''ScaffoldGroup_'' @ c \<notin> (\<lambda>c. ''ScaffoldGroup_'' @ c) ` set cs" by auto
    from A [OF this] show ?thesis by (simp add: e col map_of_set_col)
  qed
  from 1 2 3 show ?case by blast
qed

lemma mapM_ok:
  "\<forall>x \<in> set xs. \<exists>y. f x = Inr y \<and> g y = x \<Longrightarrow> \<exists>ys. mapM f xs = Inr ys \<and> map g ys = xs"
proof (induction xs)
  case Nil
  then show ?case by simp
next
  case (Cons x xs)
  then obtain y ys where "f x = Inr y" "g y = x" "mapM f xs = Inr ys" "map g ys = xs" by auto
  then show ?case by simp
qed

lemma select_ok:
  assumes "\<forall>n \<in> set names. map_of (cols d) n \<noteq> None"
  shows "\<exists>sc. select names d = Inr sc \<and> map fst (cols sc) = names"
proof -
  have "\<forall>n \<in> set names. \<exists>y. bind_err (getitem n d) (\<lambda>c. Inr (n, c)) = Inr y \<and> fst y = n"
    using assms by (auto simp: bind_err_def getitem_def)
  from mapM_ok [OF this] show ?thesis by (auto simp: select_def bind_err_def)
qed

lemma getScaffoldNames_present:
  "c \<in> set (getScaffoldNames d) \<Longrightarrow> startswith c ''Scaffold_'' \<and> map_of (cols d) c \<noteq> None"
  by (auto simp: getScaffoldNames_def map_of_eq_None_iff image_iff)

lemma createScaffoldGroups_result:
  "\<exists>d'. createScaffoldGroups L m st = (None, save L None ((fst st)\<lparr>data := d'\<rparr>, snd st))
        \<and> (\<forall>c \<in> set (getScaffoldNames (data (fst st))).
              map_of (cols d') (''ScaffoldGroup_'' @ c) =
                map_option (scaffold_group m) (map_of (cols (data (fst st))) c))"
proof -
  let ?d = "data (fst st)"
  have p: "\<forall>c \<in> set (getScaffoldNames ?d). startswith c ''Scaffold_'' \<and> map_of (cols ?d) c \<noteq> None"
    using getScaffoldNames_present by blast
  then obtain sc where sc: "getScaffolds False ?d = Inr sc" "map fst (cols sc) = getScaffoldNames ?d"
    using select_ok [of "getScaffoldNames ?d" ?d] by (auto simp: getScaffolds_def)
  from group_loop_result [OF p, of m] obtain d' where
    "group_loop m (getScaffoldNames ?d) ?d = (None, d')"
    "\<forall>c \<in> set (getScaffoldNames ?d). map_of (cols d') (''ScaffoldGroup_'' @ c) =
        map_option (scaffold_group m) (map_of (cols ?d) c)"
    by blast
  with sc show ?thesis by (auto simp: createScaffoldGroups_def)
qed

text \<open>
  C1. For every scaffold column \<open>c\<close>, every minimum group size \<open>m\<close> and every row whose
  cell in \<open>c\<close> holds a scaffold value \<open>s\<close>, \<^verbatim>\<open>createScaffoldGroups\<close> returns normally and the
  row's cell in the column \<^verbatim>\<open>ScaffoldGroup_\<close>\<open>c\<close> is \<open>s\<close> when \<open>s\<close> occurs at least \<open>m\<close> times in
  \<open>c\<close>, and \<^verbatim>\<open>Other\<close> when it occurs fewer than \<open>m\<close> times. The witness evaluates the
  column \<open>A, A, A, B, B, C\<close> for \<open>m = 3\<close>, \<open>2\<close> and \<open>1\<close>.
\<close>

theorem scaffold_group_threshold:
  assumes "c \<in> set (getScaffoldNames (data (fst st)))"
    and "getitem c (data (fst st)) = Inr col"
    and "i < length col"
    and "col ! i = Str s"
  shows "\<exists>st' g. createScaffoldGroups L m st = (None, st')
           \<and> getScaffoldGroups c (data (fst st')) = Inr g
           \<and> length g = length col
           \<and> g ! i = (if m \<le> int (count_list col (Str s)) then Str s else Str ''Other'')"
proof -
  from assms(2) have col: "map_of (cols (data (fst st))) c = Some col"
    by (simp add: getitem_def split: option.splits)
  from createScaffoldGroups_result [of L m st] assms(1) col obtain d' where
    run: "createScaffoldGroups L m st = (None, save L None ((fst st)\<lparr>data := d'\<rparr>, snd st))"
    and g: "map_of (cols d') (''ScaffoldGroup_'' @ c) = Some (scaffold_group m col)"
    by fastforce
  have "getScaffoldGroups c (data (fst (save L None ((fst st)\<lparr>data := d'\<rparr>, snd st)))) =
          Inr (scaffold_group m col)"
    using g by (simp add: getScaffoldGroups_def getitem_def save_def)
  with run scaffold_group_text [OF assms(3,4), of m] show ?thesis
    by (intro exI [of _ "save L None ((fst st)\<lparr>data := d'\<rparr>, snd st)"]
              exI [of _ "scaffold_group m col"]) simp
qed

theorem scaffold_group_threshold_witness:
  "''Scaffold_S'' \<in> set (getScaffoldNames (data (fst (abc_store, Map.empty :: files))))
   \<and> getitem ''Scaffold_S'' (data (fst (abc_store, Map.empty :: files))) =
        Inr [Str ''A'', Str ''A'', Str ''A'', Str ''B'', Str ''B'', Str ''C'']
   \<and> getScaffoldGroups ''Scaffold_S''
        (data (fst (snd (createScaffoldGroups text_lib 3 (abc_store, Map.empty))))) =
        Inr [Str ''A'', Str ''A'', Str ''A'', Str ''Other'', Str ''Other'', Str ''Other'']
   \<and> getScaffoldGroups ''Scaffold_S''
        (data (fst (snd (createScaffoldGroups text_lib 2 (abc_store, Map.empty))))) =
        Inr [Str ''A'', Str ''A'', Str ''A'', Str ''B'', Str ''B'', Str ''Other'']
   \<and> getScaffoldGroups ''Scaffold_S''
        (data (fst (snd (createScaffoldGroups text_lib 1 (abc_store, Map.empty))))) =
        Inr [Str ''A'', Str ''A'', Str ''A'', Str ''B'', Str ''B'', Str ''C'']
   \<and> (\<exists>st' g. createScaffoldGroups text_lib 2 (abc_store, Map.empty) = (None, st')
          \<and> getScaffoldGroups ''Scaffold_S'' (data (fst st')) = Inr g
          \<and> length g = 6 \<and> g ! 4 = Str ''B'' \<and> g ! 5 = Str ''Other'')"
proof -
  let ?st = "(abc_store, Map.empty :: files)"
  let ?col = "[Str ''A'', Str ''A'', Str ''A'', Str ''B'', Str ''B'', Str ''C''] :: string cell list"
  have h1: "''Scaffold_S'' \<in> set (getScaffoldNames (data (fst ?st)))"
    by (simp add: getScaffoldNames_def abc_store_def startswith_def)
  have h2: "getitem ''Scaffold_S'' (data (fst ?st)) = Inr ?col"
    by (simp add: getitem_def abc_store_def)
  have ev: "getScaffoldGroups ''Scaffold_S''
              (data (fst (snd (createScaffoldGroups text_lib m (abc_store, Map.empty))))) =
            Inr (scaffold_group m ?col)" for m
    by (simp add: createScaffoldGroups_def getScaffolds_def getScaffoldNames_def select_def
        bind_err_def getitem_def getScaffoldGroups_def abc_store_def startswith_def set_col_def
        save_def)
  have g3: "scaffold_group 3 ?col = [Str ''A'', Str ''A'', Str ''A'', Str ''Other'', Str ''Other'', Str ''Other'']"
    by code_simp
  have g2: "scaffold_group 2 ?col = [Str ''A'', Str ''A'', Str ''A'', Str ''B'', Str ''B'', Str ''Other'']"
    by code_simp
  have g1: "scaffold_group 1 ?col = ?col"
    by code_simp
  from scaffold_group_threshold [OF h1 h2, of 4 "''B''" text_lib 2]
  obtain st' g where a: "createScaffoldGroups text_lib 2 ?st = (None, st')"
      "getScaffoldGroups ''Scaffold_S'' (data (fst st')) = Inr g" "length g = 6" "g ! 4 = Str ''B''"
    by auto
  from scaffold_group_threshold [OF h1 h2, of 5 "''C''" text_lib 2]
  obtain st'' g' where b: "createScaffoldGroups text_lib 2 ?st = (None, st'')"
      "getScaffoldGroups ''Scaffold_S'' (data (fst st'')) = Inr g'" "g' ! 5 = Str ''Other''"
    by auto
  from a b have "g ! 5 = Str ''Other''" by simp
  with a have e: "\<exists>st' g. createScaffoldGroups text_lib 2 ?st = (None, st')
          \<and> getScaffoldGroups ''Scaffold_S'' (data (fst st')) = Inr g
          \<and> length g = 6 \<and> g ! 4 = Str ''B'' \<and> g ! 5 = Str ''Other''" by blast
  from h1 h2 e show ?thesis by (simp only: ev g3 g2 g1) 
qed

subsection \<open>Writing and loading again\<close>






end
